theory Spec2Isabelle
  imports Complex_Main
begin

section \<open>Tensors and failures\<close>

text \<open>
  The program is \<^verbatim>\<open>passl/modeling/architectures/LVViTWrapper.py\<close>. Its tensors are
  modelled as nested lists in row-major order: a rank-2 tensor of shape \<open>[R, C]\<close> is a list
  of \<open>R\<close> rows of length \<open>C\<close>. Elements are real numbers: the rounding of 32-bit
  floating point is not modelled. A tensor whose leading axis is empty has no row from
  which an inner extent could be read; such an extent reads as 0.
\<close>

type_synonym vec = "real list"
type_synonym mat = "real list list"
type_synonym ten3 = "real list list list"
type_synonym ten4 = "real list list list list"

datatype tensor = Rank1 vec | Rank2 mat | Rank3 ten3 | Rank4 ten4

text \<open>
  What a call of the loss code can end in besides a value. \<open>TensorError\<close> stands for any
  error the tensor library raises (incompatible shapes, an index or an axis out of
  range). \<open>NotANumber\<close> is the result of \<open>0 / 0\<close>, which floating point returns as a
  value and the reals do not have.
\<close>

datatype failure =
    TensorError
  | ZeroDivisionError
  | ValueError
  | AssertionError
  | NotANumber

text \<open>Running a list of computations: the values in order, or the first failure.\<close>

fun collect :: "('e + 'a) list \<Rightarrow> 'e + 'a list" where
  "collect [] = Inr []"
| "collect (r # rs) =
     (case r of
        Inl e \<Rightarrow> Inl e
      | Inr v \<Rightarrow> map_sum id ((#) v) (collect rs))"

definition is_mat :: "nat \<Rightarrow> nat \<Rightarrow> 'a list list \<Rightarrow> bool" where
  "is_mat r c m \<longleftrightarrow> length m = r \<and> list_all (\<lambda>row. length row = c) m"


text \<open>
  Elementwise binary operations broadcast: two extents are compatible when they are
  equal or one of them is 1, and the operand of extent 1 is repeated.
\<close>

definition broadcast_vec :: "(real \<Rightarrow> real \<Rightarrow> real) \<Rightarrow> vec \<Rightarrow> vec \<Rightarrow> failure + vec" where
  "broadcast_vec f a b =
     (if length a = length b then Inr (map2 f a b)
      else if length a = 1 then Inr (map (f (hd a)) b)
      else if length b = 1 then Inr (map (\<lambda>x. f x (hd b)) a)
      else Inl TensorError)"

definition broadcast_mat :: "(real \<Rightarrow> real \<Rightarrow> real) \<Rightarrow> mat \<Rightarrow> mat \<Rightarrow> failure + mat" where
  "broadcast_mat f a b =
     (if length a = length b then collect (map2 (broadcast_vec f) a b)
      else if length a = 1 then collect (map (broadcast_vec f (hd a)) b)
      else if length b = 1 then collect (map (\<lambda>r. broadcast_vec f r (hd b)) a)
      else Inl TensorError)"

text \<open>\<^verbatim>\<open>t.repeat(r, c)\<close> on a rank-2 tensor: \<open>r\<close> copies along axis 0, \<open>c\<close> along axis 1.\<close>

definition repeat :: "nat \<Rightarrow> nat \<Rightarrow> mat \<Rightarrow> mat" where
  "repeat r c t = concat (replicate r (map (\<lambda>row. concat (replicate c row)) t))"

text \<open>\<^verbatim>\<open>F.log_softmax(x, axis=-1)\<close> on one row, and \<^verbatim>\<open>loss.mean()\<close>.\<close>

definition log_softmax :: "vec \<Rightarrow> vec" where
  "log_softmax xs = map (\<lambda>x. x - ln (sum_list (map exp xs))) xs"

definition mean :: "vec \<Rightarrow> failure + real" where
  "mean xs = (if xs = [] then Inl NotANumber else Inr (sum_list xs / real (length xs)))"

section \<open>\<^verbatim>\<open>_SoftTargetCrossEntropy.forward\<close>\<close>

definition SoftTargetCrossEntropy_forward :: "mat \<Rightarrow> mat \<Rightarrow> failure + real" where
  "SoftTargetCrossEntropy_forward x target =
     (let N_rep = length x;
          N = length target
      in case (if N \<noteq> N_rep
               then (if N = 0 then Inl ZeroDivisionError
                     else Inr (repeat (N_rep div N) 1 target))
               else Inr target) of
           Inl e \<Rightarrow> Inl e
         | Inr target' \<Rightarrow>
             (case broadcast_mat (*) (map (map uminus) target') (map log_softmax x) of
                Inl e \<Rightarrow> Inl e
              | Inr products \<Rightarrow> mean (map sum_list products)))"

section \<open>\<^verbatim>\<open>accuracy\<close>\<close>

text \<open>
  \<^verbatim>\<open>t.argmax(axis=-1)\<close> and \<^verbatim>\<open>t.max(-1)[1]\<close> on one row: the index of the first maximal
  entry. An empty axis has no maximum and the library raises.
\<close>

fun argmax_from :: "nat \<Rightarrow> real \<Rightarrow> nat \<Rightarrow> vec \<Rightarrow> nat" where
  "argmax_from best v i [] = best"
| "argmax_from best v i (x # xs) =
     (if v < x then argmax_from i x (Suc i) xs else argmax_from best v (Suc i) xs)"

fun argmax :: "vec \<Rightarrow> failure + nat" where
  "argmax [] = Inl TensorError"
| "argmax (x # xs) = Inr (argmax_from 0 x 1 xs)"

text \<open>
  The indices returned by \<^verbatim>\<open>row.topk(k, largest=True, sorted=True)\<close>: the positions of the
  \<open>k\<close> largest entries, largest first, equal entries in index order. The library rejects
  a \<open>k\<close> below 1 or above the extent of the axis.
\<close>

definition ranking :: "vec \<Rightarrow> nat list" where
  "ranking xs = sort_key (\<lambda>i. - (xs ! i)) [0..<length xs]"

definition topk_indices :: "nat \<Rightarrow> vec \<Rightarrow> failure + nat list" where
  "topk_indices k xs =
     (if k < 1 \<or> length xs < k then Inl TensorError else Inr (take k (ranking xs)))"

text \<open>
  The target of \<^verbatim>\<open>accuracy\<close> is a vector of class indices of shape \<open>[B]\<close> or a soft label
  of shape \<open>[B, C]\<close>. \<open>expand_row\<close> is \<^verbatim>\<open>target.reshape([1, -1]).expand_as(pred)\<close>, one row of
  the expanded tensor: its width must be the batch size of \<open>pred\<close>, or 1.
\<close>

datatype labels = ClassIndices "nat list" | SoftLabels mat

definition expand_row :: "nat \<Rightarrow> nat list \<Rightarrow> failure + nat list" where
  "expand_row width t =
     (if length t = width then Inr t
      else if length t = 1 then Inr (replicate width (hd t))
      else Inl TensorError)"

definition accuracy :: "mat \<Rightarrow> labels \<Rightarrow> nat list \<Rightarrow> failure + real list" where
  "accuracy output target topk =
     (if topk = [] then Inl ValueError
      else
        let maxk = Max (set topk) in
        case (case target of
                ClassIndices t \<Rightarrow> Inr t
              | SoftLabels t \<Rightarrow> collect (map argmax t)) of
          Inl e \<Rightarrow> Inl e
        | Inr target' \<Rightarrow>
            let batch_size = length target' in
            case collect (map (topk_indices maxk) output) of
              Inl e \<Rightarrow> Inl e
            | Inr pred \<Rightarrow>
                (case expand_row (length output) target' of
                   Inl e \<Rightarrow> Inl e
                 | Inr expanded \<Rightarrow>
                     let correct = map (\<lambda>p. map2 (\<lambda>a b. if a = b then 1 else 0) p expanded)
                                       (transpose pred)
                     in if batch_size = 0 then Inl NotANumber
                        else Inr (map (\<lambda>k. sum_list (concat (take k correct)) * 100.0
                                             / real batch_size) topk)))"

section \<open>\<^verbatim>\<open>LVViTLoss\<close>\<close>

record LVViTLoss =
  dense_weight :: real
  cls_weight :: real
  ground_truth :: bool

definition LVViTLoss_init :: "real \<Rightarrow> real \<Rightarrow> bool \<Rightarrow> failure + LVViTLoss" where
  "LVViTLoss_init dense_weight' cls_weight' ground_truth' =
     (if dense_weight' + cls_weight' > 0
      then Inr \<lparr>dense_weight = dense_weight', cls_weight = cls_weight',
                ground_truth = ground_truth'\<rparr>
      else Inl AssertionError)"

text \<open>
  \<^verbatim>\<open>reshape\<close> keeps the row-major order of the elements. \<open>reshape r c\<close> is
  \<^verbatim>\<open>reshape([r, c])\<close> and \<open>reshape_infer c\<close> is \<^verbatim>\<open>reshape([-1, c])\<close>, both on the flattened
  elements.
\<close>

definition rows_of :: "nat \<Rightarrow> nat \<Rightarrow> vec \<Rightarrow> mat" where
  "rows_of r c xs = map (\<lambda>i. take c (drop (i * c) xs)) [0..<r]"

definition reshape :: "nat \<Rightarrow> nat \<Rightarrow> vec \<Rightarrow> failure + mat" where
  "reshape r c xs = (if length xs = r * c then Inr (rows_of r c xs) else Inl TensorError)"

definition reshape_infer :: "nat \<Rightarrow> vec \<Rightarrow> failure + mat" where
  "reshape_infer c xs =
     (if c = 0 \<or> length xs mod c \<noteq> 0 then Inl TensorError
      else Inr (rows_of (length xs div c) c xs))"

text \<open>\<^verbatim>\<open>t.shape\<close> of a rank-3 tensor, and \<^verbatim>\<open>t[:, :, k]\<close>.\<close>

definition shape3 :: "ten3 \<Rightarrow> nat \<times> nat \<times> nat" where
  "shape3 t =
     (length t,
      (case t of [] \<Rightarrow> 0 | m # _ \<Rightarrow> length m),
      (case t of (r # _) # _ \<Rightarrow> length r | _ \<Rightarrow> 0))"

definition select_last :: "nat \<Rightarrow> ten3 \<Rightarrow> failure + mat" where
  "select_last k t =
     (if list_all (list_all (\<lambda>v. k < length v)) t then Inr (map (map (\<lambda>v. v ! k)) t)
      else Inl TensorError)"

text \<open>
  Lines 139 to 143 of the source, the correction by the ground truth: \<open>ratio\<close> has one
  entry per sample, \<^verbatim>\<open>unsqueeze(-1)\<close> makes it a column, and the products broadcast it
  over the classes.
\<close>

definition correct_by_ground_truth :: "mat \<Rightarrow> mat \<Rightarrow> failure + mat" where
  "correct_by_ground_truth ground_truth' target_cls =
     (case collect (map argmax ground_truth') of
        Inl e \<Rightarrow> Inl e
      | Inr gt_idx \<Rightarrow>
          (case collect (map argmax target_cls) of
             Inl e \<Rightarrow> Inl e
           | Inr cls_idx \<Rightarrow>
               let ratio = map (\<lambda>r. [r])
                             (map2 (\<lambda>g c. 0.9 - 0.4 * (if g = c then 1 else 0)) gt_idx cls_idx)
               in (case broadcast_mat (*) target_cls ratio of
                     Inl e \<Rightarrow> Inl e
                   | Inr weighted_cls \<Rightarrow>
                       (case broadcast_mat (*) ground_truth' (map (map (\<lambda>r. 1 - r)) ratio) of
                          Inl e \<Rightarrow> Inl e
                        | Inr weighted_gt \<Rightarrow> broadcast_mat (+) weighted_cls weighted_gt))))"

text \<open>
  Lines 131 to 145: the classification target and the auxiliary target. A rank-1 target
  cannot be indexed with three indices and a rank-4 target cannot be transposed with a
  permutation of three axes, so the library raises on both.
\<close>

definition split_target :: "LVViTLoss \<Rightarrow> nat \<Rightarrow> nat \<Rightarrow> nat \<Rightarrow> tensor \<Rightarrow> failure + mat \<times> mat" where
  "split_target self B N C target =
     (case target of
        Rank2 t \<Rightarrow>
          (case reshape (B * N) C (concat (repeat 1 N t)) of
             Inl e \<Rightarrow> Inl e
           | Inr target_aux \<Rightarrow> Inr (t, target_aux))
      | Rank3 t \<Rightarrow>
          (case select_last 1 t of
             Inl e \<Rightarrow> Inl e
           | Inr target_cls \<Rightarrow>
               (case (if ground_truth self
                      then (case select_last 0 t of
                              Inl e \<Rightarrow> Inl e
                            | Inr ground_truth' \<Rightarrow>
                                correct_by_ground_truth ground_truth' target_cls)
                      else Inr target_cls) of
                  Inl e \<Rightarrow> Inl e
                | Inr target_cls' \<Rightarrow>
                    (case reshape_infer C
                            (concat (concat (map transpose (map (map (drop 2)) t)))) of
                       Inl e \<Rightarrow> Inl e
                     | Inr target_aux \<Rightarrow> Inr (target_cls', target_aux))))
      | _ \<Rightarrow> Inl TensorError)"

text \<open>Lines 146 to 148: the mixing with the batch-reversed target.\<close>

type_synonym bbox = "real \<times> real \<times> real \<times> real"

definition region_mix :: "bbox \<Rightarrow> nat \<Rightarrow> mat \<Rightarrow> failure + mat" where
  "region_mix bb N target_cls =
     (case bb of (bbx1, bby1, bbx2, bby2) \<Rightarrow>
        if N = 0 then Inl ZeroDivisionError
        else
          let lam = 1 - ((bbx2 - bbx1) * (bby2 - bby1) / real N) in
          if lam < 1
          then broadcast_mat (+) (map (map ((*) lam)) target_cls)
                                 (map (map ((*) (1 - lam))) (rev target_cls))
          else Inr target_cls)"

type_synonym backbone_out = "mat \<times> ten3 \<times> bbox"

definition LVViTLoss_forward ::
    "LVViTLoss \<Rightarrow> backbone_out \<Rightarrow> tensor \<Rightarrow> failure + (string \<rightharpoonup> real)" where
  "LVViTLoss_forward self x target =
     (case x of (output, aux_output, bb) \<Rightarrow>
      case shape3 aux_output of (B, N, C) \<Rightarrow>
      case split_target self B N C target of
        Inl e \<Rightarrow> Inl e
      | Inr (target_cls, target_aux) \<Rightarrow>
      case region_mix bb N target_cls of
        Inl e \<Rightarrow> Inl e
      | Inr target_cls' \<Rightarrow>
      case reshape_infer C (concat (concat aux_output)) of
        Inl e \<Rightarrow> Inl e
      | Inr aux_output' \<Rightarrow>
      case SoftTargetCrossEntropy_forward output target_cls' of
        Inl e \<Rightarrow> Inl e
      | Inr loss_cls \<Rightarrow>
      case SoftTargetCrossEntropy_forward aux_output' target_aux of
        Inl e \<Rightarrow> Inl e
      | Inr loss_aux \<Rightarrow>
      case accuracy output (SoftLabels target_cls') [1, 5] of
        Inl e \<Rightarrow> Inl e
      | Inr accs \<Rightarrow>
          (case accs of
             [acc1, acc5] \<Rightarrow>
               Inr [''loss'' \<mapsto> cls_weight self * loss_cls + dense_weight self * loss_aux,
                    ''acc1'' \<mapsto> acc1,
                    ''acc5'' \<mapsto> acc5]
           | _ \<Rightarrow> Inl ValueError))"

section \<open>\<^verbatim>\<open>LVViTWrapper\<close>\<close>

text \<open>
  The backbone and the mixing function are collaborators from outside the file and are
  taken as functions. A failure of the loss module reaches the caller unchanged, as
  \<open>Raised\<close>. \<open>UnpackError\<close> is the \<^verbatim>\<open>ValueError\<close> of \<^verbatim>\<open>img, label = inputs\<close> when
  \<open>inputs\<close> does not have two elements.
\<close>

datatype error =
    Exception string
  | KeyError string
  | UnpackError
  | IndexError
  | Raised failure

type_synonym mixup = "tensor \<times> tensor \<Rightarrow> tensor \<times> tensor"

type_synonym kwargs = "string \<rightharpoonup> mixup option"

record 'f LVViTWrapper =
  backbone :: "tensor list \<Rightarrow> backbone_out"
  forward_features :: "tensor \<Rightarrow> 'f"
  loss :: LVViTLoss

datatype 'f result = Losses "string \<rightharpoonup> real" | Outs backbone_out | Features 'f

definition LVViTWrapper_init ::
    "(tensor list \<Rightarrow> backbone_out) \<Rightarrow> (tensor \<Rightarrow> 'f) \<Rightarrow> error + 'f LVViTWrapper" where
  "LVViTWrapper_init built_backbone built_features =
     (case LVViTLoss_init 1.0 1.0 False of
        Inl e \<Rightarrow> Inl (Raised e)
      | Inr l \<Rightarrow>
          Inr \<lparr>backbone = built_backbone, forward_features = built_features, loss = l\<rparr>)"

definition train_iter :: "'f LVViTWrapper \<Rightarrow> tensor list \<Rightarrow> kwargs \<Rightarrow> error + 'f result" where
  "train_iter self inputs kwargs =
     (case inputs of
        [img, label] \<Rightarrow>
          (case kwargs ''mixup_fn'' of
             None \<Rightarrow> Inl (KeyError ''mixup_fn'')
           | Some mixup_fn \<Rightarrow>
               (case (case mixup_fn of
                        None \<Rightarrow> (img, label)
                      | Some f \<Rightarrow> f (img, label)) of
                  (img', label') \<Rightarrow>
                    let outs = backbone self [img'] in
                    (case LVViTLoss_forward (loss self) outs label' of
                       Inl e \<Rightarrow> Inl (Raised e)
                     | Inr outputs \<Rightarrow> Inr (Losses outputs))))
      | _ \<Rightarrow> Inl UnpackError)"

definition test_iter :: "'f LVViTWrapper \<Rightarrow> tensor list \<Rightarrow> kwargs \<Rightarrow> error + 'f result" where
  "test_iter self inputs kwargs =
     (case inputs of
        [img, label] \<Rightarrow> Inr (Outs (backbone self [img]))
      | _ \<Rightarrow> Inl UnpackError)"

definition infer_iter :: "'f LVViTWrapper \<Rightarrow> tensor list \<Rightarrow> kwargs \<Rightarrow> error + 'f result" where
  "infer_iter self inputs kwargs = Inr (Outs (backbone self inputs))"

definition LVViTWrapper_forward ::
    "'f LVViTWrapper \<Rightarrow> tensor list \<Rightarrow> string \<Rightarrow> kwargs \<Rightarrow> error + 'f result" where
  "LVViTWrapper_forward self inputs mode kwargs =
     (if mode = ''train'' then train_iter self inputs kwargs
      else if mode = ''test'' then test_iter self inputs kwargs
      else if mode = ''infer'' then infer_iter self inputs kwargs
      else if mode = ''extract'' then
        (case inputs of
           [] \<Rightarrow> Inl IndexError
         | img # _ \<Rightarrow> Inr (Features (forward_features self img)))
      else Inl (Exception (''No such mode: '' @ mode)))"

section \<open>Concrete inputs\<close>

text \<open>
  A wrapper over a constant backbone with five classes, one sample and one token, and a
  mixing function that replaces the label; they serve as inputs on which the functions
  above are evaluated.
\<close>

definition example_wrapper :: "tensor LVViTWrapper" where
  "example_wrapper =
     \<lparr>backbone = (\<lambda>inputs. ([[0, 0, 0, 0, 0]], [[[0, 0, 0, 0, 0]]], (0, 0, 0, 0))),
      forward_features = (\<lambda>img. img),
      loss = \<lparr>dense_weight = 1, cls_weight = 1, ground_truth = False\<rparr>\<rparr>"

definition swap_labels :: mixup where
  "swap_labels p = (fst p, Rank2 [[0, 1, 0, 0, 0]])"

text \<open>Running the loss module on what the backbone returns, as \<open>train_iter\<close> does.\<close>

definition run_loss :: "'f LVViTWrapper \<Rightarrow> tensor \<Rightarrow> tensor \<Rightarrow> error + 'f result" where
  "run_loss self img label =
     (case LVViTLoss_forward (loss self) (backbone self [img]) label of
        Inl e \<Rightarrow> Inl (Raised e)
      | Inr outputs \<Rightarrow> Inr (Losses outputs))"

section \<open>Notions of the specification\<close>




section \<open>Facts about the tensor operations\<close>

lemma collect_map_Inr:
  "(\<And>x. x \<in> set xs \<Longrightarrow> f x = Inr (g x)) \<Longrightarrow> collect (map f xs) = Inr (map g xs)"
  by (induction xs) auto

lemma broadcast_vec_same:
  "length a = length b \<Longrightarrow> broadcast_vec f a b = Inr (map2 f a b)"
  by (simp add: broadcast_vec_def)

lemma is_mat_rowD: "is_mat r c m \<Longrightarrow> row \<in> set m \<Longrightarrow> length row = c"
  by (simp add: is_mat_def list_all_iff)

lemma is_mat_lengthD: "is_mat r c m \<Longrightarrow> length m = r"
  by (simp add: is_mat_def)

lemma is_mat_nthD: "is_mat r c m \<Longrightarrow> i < r \<Longrightarrow> length (m ! i) = c"
  by (simp add: is_mat_def list_all_length)

lemma broadcast_mat_same:
  assumes "is_mat r c a" "is_mat r c b"
  shows "broadcast_mat f a b = Inr (map2 (map2 f) a b)"
proof -
  have len: "length a = length b"
    using assms by (simp add: is_mat_def)
  have "collect (map (\<lambda>(x, y). broadcast_vec f x y) (zip a b))
          = Inr (map (\<lambda>(x, y). map2 f x y) (zip a b))"
  proof (rule collect_map_Inr)
    fix p assume p: "p \<in> set (zip a b)"
    obtain u v where uv: "p = (u, v)"
      by (cases p)
    have "u \<in> set a" "v \<in> set b"
      using p uv by (auto dest: set_zip_leftD set_zip_rightD)
    then have "length u = length v"
      using assms by (simp add: is_mat_rowD)
    then show "(case p of (x, y) \<Rightarrow> broadcast_vec f x y) = Inr (case p of (x, y) \<Rightarrow> map2 f x y)"
      by (simp add: uv broadcast_vec_same)
  qed
  then show ?thesis
    using len by (simp add: broadcast_mat_def)
qed

lemma sum_list_map2_nth:
  "length a = n \<Longrightarrow> length b = n \<Longrightarrow> sum_list (map2 f a b) = (\<Sum>i<n. f (a ! i) (b ! i))"
proof -
  assume l: "length a = n" "length b = n"
  have "map2 f a b = map (\<lambda>i. f (a ! i) (b ! i)) [0..<n]"
    using l by (intro nth_equalityI) auto
  then show ?thesis
    by (simp add: interv_sum_list_conv_sum_set_nat atLeast0LessThan)
qed

lemma nth_concat_replicate:
  "i < r * length t \<Longrightarrow> concat (replicate r t) ! i = t ! (i mod length t)"
proof (induction r arbitrary: i)
  case 0
  then show ?case by simp
next
  case (Suc r)
  show ?case
  proof (cases "i < length t")
    case True
    then show ?thesis by (simp add: nth_append)
  next
    case False
    then have "i - length t < r * length t" using Suc.prems by simp
    from Suc.IH[OF this] False show ?thesis
      by (simp add: nth_append le_mod_geq)
  qed
qed

lemma repeat_one_col: "repeat r (Suc 0) t = concat (replicate r t)"
  by (simp add: repeat_def)

lemma length_concat_replicate: "length (concat (replicate r t)) = r * length t"
  by (induction r) auto

lemma is_mat_concat_replicate:
  "is_mat n c t \<Longrightarrow> is_mat (r * n) c (concat (replicate r t))"
  by (auto simp: is_mat_def list_all_iff length_concat_replicate)


lemma length_log_softmax: "length (log_softmax xs) = length xs"
  by (simp add: log_softmax_def)

lemma sum_rows_map2:
  assumes a: "is_mat m c a" and b: "is_mat m c b"
  shows "sum_list (map sum_list (map2 (map2 f) a b)) = (\<Sum>i<m. \<Sum>j<c. f (a ! i ! j) (b ! i ! j))"
proof -
  have la: "length a = m" and lb: "length b = m"
    using a b by (simp_all add: is_mat_def)
  have "map sum_list (map2 (map2 f) a b) = map (\<lambda>i. \<Sum>j<c. f (a ! i ! j) (b ! i ! j)) [0..<m]"
  proof (rule nth_equalityI)
    show "length (map sum_list (map2 (map2 f) a b)) = length (map (\<lambda>i. \<Sum>j<c. f (a ! i ! j) (b ! i ! j)) [0..<m])"
      using la lb by simp
  next
    fix i assume "i < length (map sum_list (map2 (map2 f) a b))"
    then have i: "i < m" using la lb by simp
    have "length (a ! i) = c" "length (b ! i) = c"
      using a b i by (simp_all add: is_mat_nthD)
    then have "sum_list (map2 f (a ! i) (b ! i)) = (\<Sum>j<c. f (a ! i ! j) (b ! i ! j))"
      by (rule sum_list_map2_nth)
    then show "map sum_list (map2 (map2 f) a b) ! i = map (\<lambda>i. \<Sum>j<c. f (a ! i ! j) (b ! i ! j)) [0..<m] ! i"
      using i la lb by simp
  qed
  then show ?thesis
    by (simp add: interv_sum_list_conv_sum_set_nat atLeast0LessThan)
qed

lemma SoftTargetCrossEntropy_on_tiled:
  assumes x: "is_mat M C x" and t: "is_mat N C target" and N: "0 < N" and M: "0 < M"
    and dvd: "N dvd M"
  shows "SoftTargetCrossEntropy_forward x target =
           Inr ((\<Sum>i<M. \<Sum>j<C. - (target ! (i mod N) ! j) * (log_softmax (x ! i) ! j)) / real M)"
proof -
  define tiled where "tiled = concat (replicate (M div N) target)"
  have lx: "length x = M" and lt: "length target = N"
    using x t by (simp_all add: is_mat_def)
  have MN: "M div N * N = M"
    using dvd by simp
  have tiled_mat: "is_mat M C tiled"
    using is_mat_concat_replicate[OF t, of "M div N"] MN by (simp add: tiled_def)
  have tiled_nth: "tiled ! i = target ! (i mod N)" if "i < M" for i
    using nth_concat_replicate[of i "M div N" target] that MN lt by (simp add: tiled_def)
  have same: "N = M \<Longrightarrow> tiled = target"
    using N by (simp add: tiled_def)
  have pre: "(if N \<noteq> M then (if N = 0 then Inl ZeroDivisionError
                else Inr (repeat (M div N) 1 target)) else Inr target) = Inr tiled"
    using N same by (auto simp: repeat_one_col tiled_def)
  have neg_mat: "is_mat M C (map (map uminus) tiled)"
    using tiled_mat by (simp add: is_mat_def list_all_iff)
  have lsm_mat: "is_mat M C (map log_softmax x)"
    using x by (simp add: is_mat_def list_all_iff length_log_softmax)
  have bc: "broadcast_mat (*) (map (map uminus) tiled) (map log_softmax x)
              = Inr (map2 (map2 (*)) (map (map uminus) tiled) (map log_softmax x))"
    by (rule broadcast_mat_same[OF neg_mat lsm_mat])
  have nonempty: "map sum_list (map2 (map2 (*)) (map (map uminus) tiled) (map log_softmax x)) \<noteq> []"
    using M lx tiled_mat by (auto simp: is_mat_def)
  have len: "length (map sum_list (map2 (map2 (*)) (map (map uminus) tiled) (map log_softmax x))) = M"
    using lx tiled_mat by (simp add: is_mat_def)
  have sums: "sum_list (map sum_list (map2 (map2 (*)) (map (map uminus) tiled) (map log_softmax x)))
      = (\<Sum>i<M. \<Sum>j<C. (map (map uminus) tiled ! i ! j) * (map log_softmax x ! i ! j))"
    by (rule sum_rows_map2[OF neg_mat lsm_mat])
  have "(\<Sum>i<M. \<Sum>j<C. (map (map uminus) tiled ! i ! j) * (map log_softmax x ! i ! j))
      = (\<Sum>i<M. \<Sum>j<C. - (target ! (i mod N) ! j) * (log_softmax (x ! i) ! j))"
  proof (intro sum.cong refl)
    fix i j assume "i \<in> {..<M}" "j \<in> {..<C}"
    then have i: "i < M" and j: "j < C" by simp_all
    have "length (tiled ! i) = C"
      using tiled_mat i by (simp add: is_mat_nthD)
    then show "(map (map uminus) tiled ! i ! j) * (map log_softmax x ! i ! j)
        = - (target ! (i mod N) ! j) * (log_softmax (x ! i) ! j)"
      using i j lx tiled_mat tiled_nth[OF i] by (simp add: is_mat_def)
  qed
  with sums have total: "sum_list (map sum_list (map2 (map2 (*)) (map (map uminus) tiled) (map log_softmax x)))
      = (\<Sum>i<M. \<Sum>j<C. - (target ! (i mod N) ! j) * (log_softmax (x ! i) ! j))"
    by simp
  show ?thesis
    unfolding SoftTargetCrossEntropy_forward_def Let_def lx lt pre
    using nonempty len total by (simp add: bc mean_def del: length_map)
qed


lemma iter_never_mode_error:
  "train_iter self inputs kwargs \<noteq> Inl (Exception m)"
  "test_iter self inputs kwargs \<noteq> Inl (Exception m)"
  "infer_iter self inputs kwargs \<noteq> Inl (Exception m)"
  by (auto simp: train_iter_def test_iter_def infer_iter_def Let_def
           split: list.splits option.splits sum.splits prod.splits)

lemma is_mat_map_map: "is_mat r c m \<Longrightarrow> is_mat r c (map (map f) m)"
  by (simp add: is_mat_def list_all_iff)

lemma is_mat_rev: "is_mat r c m \<Longrightarrow> is_mat r c (rev m)"
  by (simp add: is_mat_def list_all_iff)

lemma map2_map_map: "map2 f (map g xs) (map h ys) = map2 (\<lambda>x y. f (g x) (h y)) xs ys"
  by (auto simp: zip_map_map)

lemma region_mix_lam:
  assumes "0 < N" and "lam = 1 - ((x2 - x1) * (y2 - y1) / real N)"
  shows "region_mix (x1, y1, x2, y2) N target_cls
      = (if lam < 1
         then broadcast_mat (+) (map (map ((*) lam)) target_cls)
                (map (map ((*) (1 - lam))) (rev target_cls))
         else Inr target_cls)"
  unfolding region_mix_def prod.case assms(2) using assms(1) by (simp add: Let_def)

lemma region_mix_below_one:
  assumes "0 < N" and "is_mat B C target_cls"
    and "lam = 1 - ((x2 - x1) * (y2 - y1) / real N)" and "lam < 1"
  shows "region_mix (x1, y1, x2, y2) N target_cls
           = Inr (map2 (map2 (\<lambda>a b. lam * a + (1 - lam) * b)) target_cls (rev target_cls))"
proof -
  have "broadcast_mat (+) (map (map ((*) lam)) target_cls) (map (map ((*) (1 - lam))) (rev target_cls))
      = Inr (map2 (map2 (+)) (map (map ((*) lam)) target_cls) (map (map ((*) (1 - lam))) (rev target_cls)))"
    using assms(2) by (intro broadcast_mat_same[of B C]) (simp_all add: is_mat_map_map is_mat_rev)
  also have "map2 (map2 (+)) (map (map ((*) lam)) target_cls) (map (map ((*) (1 - lam))) (rev target_cls))
      = map2 (map2 (\<lambda>a b. lam * a + (1 - lam) * b)) target_cls (rev target_cls)"
    by (simp add: map2_map_map)
  finally have sum: "broadcast_mat (+) (map (map ((*) lam)) target_cls)
        (map (map ((*) (1 - lam))) (rev target_cls))
      = Inr (map2 (map2 (\<lambda>a b. lam * a + (1 - lam) * b)) target_cls (rev target_cls))" .
  show ?thesis
    using assms(4) sum by (simp add: region_mix_lam[OF assms(1,3)])
qed

lemma length_concat_uniform:
  "list_all (\<lambda>row. length row = c) m \<Longrightarrow> length (concat m) = length m * c"
  by (induction m) auto

lemma nth_concat_uniform:
  "list_all (\<lambda>row. length row = c) m \<Longrightarrow> i < length m \<Longrightarrow> j < c \<Longrightarrow>
     concat m ! (i * c + j) = m ! i ! j"
proof (induction m arbitrary: i)
  case Nil
  then show ?case by simp
next
  case (Cons row m)
  show ?case
  proof (cases i)
    case 0
    then show ?thesis using Cons.prems by (simp add: nth_append)
  next
    case (Suc k)
    have "concat (row # m) ! (i * c + j) = concat m ! (k * c + j)"
      using Cons.prems Suc by (simp add: nth_append)
    also have "\<dots> = m ! k ! j"
      using Cons.prems Suc by (intro Cons.IH) simp_all
    finally show ?thesis using Suc by simp
  qed
qed

lemma rows_of_concat:
  "list_all (\<lambda>row. length row = c) m \<Longrightarrow> rows_of (length m) c (concat m) = m"
proof (induction m)
  case Nil
  then show ?case by (simp add: rows_of_def)
next
  case (Cons row m)
  have len: "length row = c" and rest: "list_all (\<lambda>row. length row = c) m"
    using Cons.prems by simp_all
  have "map (\<lambda>i. take c (drop (Suc i * c) (row @ concat m))) [0..<length m]
      = map (\<lambda>i. take c (drop (i * c) (concat m))) [0..<length m]"
    using len by simp
  also have "\<dots> = m"
    using Cons.IH[OF rest] by (simp add: rows_of_def)
  finally show ?case
    using len by (simp add: rows_of_def map_upt_Suc del: upt_Suc)
qed

lemma concat_concat_map: "concat (concat xss) = concat (map concat xss)"
  by (induction xss) auto

lemma reshape_of_rows:
  assumes "is_mat r c m"
  shows "reshape r c (concat m) = Inr m"
  using assms rows_of_concat[of c m] length_concat_uniform[of c m]
  by (simp add: reshape_def is_mat_def)


lemma is_mat_concat_blocks:
  assumes "length blocks = b" and "\<And>blk. blk \<in> set blocks \<Longrightarrow> is_mat n c blk"
  shows "is_mat (b * n) c (concat blocks)"
proof -
  have "list_all (\<lambda>blk. length blk = n) blocks"
    using assms(2) by (auto simp: list_all_iff is_mat_def)
  then have "length (concat blocks) = b * n"
    using assms(1) by (simp add: length_concat_uniform)
  moreover have "list_all (\<lambda>row. length row = c) (concat blocks)"
    using assms(2) by (auto simp: list_all_iff is_mat_def)
  ultimately show ?thesis by (simp add: is_mat_def)
qed

lemma split_target_rank2:
  assumes "is_mat B C target"
  shows "split_target self B N C (Rank2 target) = Inr (target, concat (map (replicate N) target))"
proof -
  have flat: "concat (repeat 1 N target) = concat (concat (map (replicate N) target))"
    by (simp add: repeat_def concat_concat_map comp_def)
  have "is_mat (B * N) C (concat (map (replicate N) target))"
    using assms by (intro is_mat_concat_blocks) (auto simp: is_mat_def list_all_iff)
  then have "reshape (B * N) C (concat (repeat 1 N target)) = Inr (concat (map (replicate N) target))"
    unfolding flat by (rule reshape_of_rows)
  then show ?thesis
    by (simp add: split_target_def)
qed

































section \<open>Properties of the soft-target cross-entropy\<close>

text \<open>
  C2. For logits \<open>x\<close> of shape \<open>[M, C]\<close> and a soft target of shape \<open>[N, C]\<close> with \<open>M\<close> a
  positive multiple of \<open>N\<close>, the target rows are tiled \<open>M div N\<close> times along axis 0 (row
  \<open>i\<close> of the tiled target is row \<open>i mod N\<close> of the target), and the result is the mean over
  the \<open>M\<close> rows of the sum over the class axis of \<open>- target * log_softmax x\<close>. With
  \<open>M = N\<close> this is the standard soft cross-entropy.
\<close>

theorem SoftTargetCrossEntropy_tiles_and_averages:
  assumes "is_mat M C x" and "is_mat N C target" and "0 < N" and "0 < M" and "N dvd M"
  shows "is_mat M C (repeat (M div N) 1 target)
       \<and> (\<forall>i<M. repeat (M div N) 1 target ! i = target ! (i mod N))
       \<and> SoftTargetCrossEntropy_forward x target =
           Inr ((\<Sum>i<M. \<Sum>j<C. - (target ! (i mod N) ! j) * (log_softmax (x ! i) ! j)) / real M)
       \<and> (M = N \<longrightarrow> SoftTargetCrossEntropy_forward x target =
           Inr ((\<Sum>i<N. \<Sum>j<C. - (target ! i ! j) * (log_softmax (x ! i) ! j)) / real N))"
proof -
  have lt: "length target = N"
    using assms(2) by (simp add: is_mat_def)
  have MN: "M div N * N = M"
    using assms(5) by simp
  have shape: "is_mat M C (repeat (M div N) 1 target)"
    using is_mat_concat_replicate[OF assms(2), of "M div N"] MN by (simp add: repeat_one_col)
  have rows: "\<forall>i<M. repeat (M div N) 1 target ! i = target ! (i mod N)"
    using nth_concat_replicate[of _ "M div N" target] MN lt by (simp add: repeat_one_col)
  have ce: "SoftTargetCrossEntropy_forward x target =
      Inr ((\<Sum>i<M. \<Sum>j<C. - (target ! (i mod N) ! j) * (log_softmax (x ! i) ! j)) / real M)"
    using assms by (rule SoftTargetCrossEntropy_on_tiled)
  have "M = N \<Longrightarrow> (\<Sum>i<M. \<Sum>j<C. - (target ! (i mod N) ! j) * (log_softmax (x ! i) ! j))
      = (\<Sum>i<N. \<Sum>j<C. - (target ! i ! j) * (log_softmax (x ! i) ! j))"
    by (intro sum.cong) simp_all
  with ce have "M = N \<longrightarrow> SoftTargetCrossEntropy_forward x target =
      Inr ((\<Sum>i<N. \<Sum>j<C. - (target ! i ! j) * (log_softmax (x ! i) ! j)) / real N)"
    by simp
  with shape rows ce show ?thesis
    by blast
qed

theorem SoftTargetCrossEntropy_tiles_and_averages_witness:
  "is_mat 2 2 [[0, 0], [0, 0 :: real]] \<and> is_mat 1 2 [[1, 0 :: real]] \<and> (1 :: nat) dvd 2
   \<and> repeat 2 1 [[1, 0]] = [[1, 0], [1, 0]]
   \<and> SoftTargetCrossEntropy_forward [[0, 0], [0, 0]] [[1, 0]] = Inr (ln 2)"
  using SoftTargetCrossEntropy_tiles_and_averages [of 2 2 "[[0, 0], [0, 0]]" 1 "[[1, 0]]"]
  by (simp add: is_mat_def repeat_def log_softmax_def numeral_2_eq_2)


section \<open>Region mixing\<close>

text \<open>
  C4. With \<open>lam = 1 - (x2 - x1) * (y2 - y1) / N\<close> for a bounding box \<open>(x1, y1, x2, y2)\<close> and
  \<open>N\<close> tokens: if \<open>lam < 1\<close> the classification target becomes
  \<open>lam * target_cls + (1 - lam) * \<close> the batch-reversed \<open>target_cls\<close>; if \<open>lam = 1\<close>, which
  is the case of a box of area zero, \<open>target_cls\<close> is left as it is.
\<close>

theorem region_mix_blends_with_reversed_batch:
  assumes "0 < N" and "is_mat B C target_cls"
    and "lam = 1 - ((x2 - x1) * (y2 - y1) / real N)"
  shows "(lam < 1 \<longrightarrow> region_mix (x1, y1, x2, y2) N target_cls
            = Inr (map2 (map2 (\<lambda>a b. lam * a + (1 - lam) * b)) target_cls (rev target_cls)))
       \<and> (lam = 1 \<longrightarrow> region_mix (x1, y1, x2, y2) N target_cls = Inr target_cls)
       \<and> ((x2 - x1) * (y2 - y1) = 0 \<longrightarrow> lam = 1)"
proof (intro conjI impI)
  assume "lam < 1"
  with assms show "region_mix (x1, y1, x2, y2) N target_cls
            = Inr (map2 (map2 (\<lambda>a b. lam * a + (1 - lam) * b)) target_cls (rev target_cls))"
    by (rule region_mix_below_one)
next
  assume "lam = 1"
  then show "region_mix (x1, y1, x2, y2) N target_cls = Inr target_cls"
    by (simp add: region_mix_lam[OF assms(1,3)])
next
  assume "(x2 - x1) * (y2 - y1) = 0"
  then show "lam = 1"
    using assms(3) by simp
qed

theorem region_mix_blends_with_reversed_batch_witness:
  "is_mat 2 2 [[1, 0], [0, 1 :: real]]
   \<and> region_mix (0, 0, 1, 1) 4 [[1, 0], [0, 1]] = Inr [[3 / 4, 1 / 4], [1 / 4, 3 / 4]]
   \<and> region_mix (0, 0, 0, 1) 4 [[1, 0], [0, 1]] = Inr [[1, 0], [0, 1]]"
proof -
  have m: "is_mat 2 2 [[1, 0], [0, 1 :: real]]"
    by (simp add: is_mat_def)
  have a: "region_mix (0, 0, 1, 1) 4 [[1, 0], [0, 1]] = Inr [[3 / 4, 1 / 4], [1 / 4, 3 / 4]]"
    using region_mix_blends_with_reversed_batch [of 4 2 2 "[[1, 0], [0, 1]]" "3 / 4" 1 0 1 0] m
    by simp
  have b: "region_mix (0, 0, 0, 1) 4 [[1, 0], [0, 1]] = Inr [[1, 0], [0, 1]]"
    using region_mix_blends_with_reversed_batch [of 4 2 2 "[[1, 0], [0, 1]]" 1 0 0 1 0] m
    by simp
  from m a b show ?thesis by blast
qed


section \<open>Construction of the loss module\<close>

text \<open>
  C8. Constructing the loss with \<open>dense_weight + cls_weight \<le> 0\<close> fails with the assertion
  error, constructing it with a positive sum succeeds, and every constructed loss module
  has \<open>dense_weight + cls_weight > 0\<close>.
\<close>

theorem LVViTLoss_init_enforces_positive_sum:
  "(dw + cw \<le> 0 \<longrightarrow> LVViTLoss_init dw cw gt = Inl AssertionError)
   \<and> (0 < dw + cw \<longrightarrow>
        LVViTLoss_init dw cw gt = Inr \<lparr>dense_weight = dw, cls_weight = cw, ground_truth = gt\<rparr>)
   \<and> (\<forall>l. LVViTLoss_init dw cw gt = Inr l \<longrightarrow> 0 < dense_weight l + cls_weight l)"
  by (auto simp: LVViTLoss_init_def)

theorem LVViTLoss_init_enforces_positive_sum_witness:
  "LVViTLoss_init 0 0 False = Inl AssertionError
   \<and> LVViTLoss_init 1 1 False = Inr \<lparr>dense_weight = 1, cls_weight = 1, ground_truth = False\<rparr>
   \<and> 0 < dense_weight \<lparr>dense_weight = 1, cls_weight = 1, ground_truth = False\<rparr>
         + cls_weight \<lparr>dense_weight = 1, cls_weight = 1, ground_truth = False\<rparr>"
proof -
  have zero: "LVViTLoss_init 0 0 False = Inl AssertionError"
    using LVViTLoss_init_enforces_positive_sum [of 0 0 False] by simp
  have one: "LVViTLoss_init 1 1 False = Inr \<lparr>dense_weight = 1, cls_weight = 1, ground_truth = False\<rparr>"
    using LVViTLoss_init_enforces_positive_sum [of 1 1 False] by simp
  have "0 < dense_weight \<lparr>dense_weight = 1, cls_weight = 1, ground_truth = False\<rparr>
         + cls_weight \<lparr>dense_weight = 1, cls_weight = 1, ground_truth = False\<rparr>"
    using LVViTLoss_init_enforces_positive_sum [of 1 1 False] one by blast
  with zero one show ?thesis by blast
qed

section \<open>Mode dispatch of the wrapper\<close>

text \<open>
  C9. For a mode string other than \<open>train\<close>, \<open>test\<close>, \<open>infer\<close> and \<open>extract\<close> the
  wrapper's \<open>forward\<close> raises the exception whose message is \<open>No such mode: \<close> followed by
  the mode string; for the four valid mode strings it never raises that exception.
\<close>

theorem forward_unknown_mode_raises:
  "(mode \<notin> {''train'', ''test'', ''infer'', ''extract''} \<longrightarrow>
      LVViTWrapper_forward self inputs mode kwargs = Inl (Exception (''No such mode: '' @ mode)))
   \<and> (mode \<in> {''train'', ''test'', ''infer'', ''extract''} \<longrightarrow>
      (\<forall>m. LVViTWrapper_forward self inputs mode kwargs \<noteq> Inl (Exception m)))"
proof (intro conjI impI allI)
  assume "mode \<notin> {''train'', ''test'', ''infer'', ''extract''}"
  then show "LVViTWrapper_forward self inputs mode kwargs = Inl (Exception (''No such mode: '' @ mode))"
    by (simp add: LVViTWrapper_forward_def)
next
  fix m
  assume "mode \<in> {''train'', ''test'', ''infer'', ''extract''}"
  then consider "mode = ''train''" | "mode = ''test''" | "mode = ''infer''" | "mode = ''extract''"
    by blast
  then show "LVViTWrapper_forward self inputs mode kwargs \<noteq> Inl (Exception m)"
  proof cases
    case 1
    then show ?thesis by (simp add: LVViTWrapper_forward_def iter_never_mode_error)
  next
    case 2
    then show ?thesis by (simp add: LVViTWrapper_forward_def iter_never_mode_error)
  next
    case 3
    then show ?thesis by (simp add: LVViTWrapper_forward_def iter_never_mode_error)
  next
    case 4
    then show ?thesis by (simp add: LVViTWrapper_forward_def split: list.splits)
  qed
qed

theorem forward_unknown_mode_raises_witness:
  "LVViTWrapper_forward example_wrapper [Rank4 [[[[0]]]]] ''eval'' Map.empty
     = Inl (Exception ''No such mode: eval'')
   \<and> LVViTWrapper_forward example_wrapper [Rank4 [[[[0]]]]] ''extract'' Map.empty
     \<noteq> Inl (Exception ''No such mode: extract'')"
proof -
  have a: "LVViTWrapper_forward example_wrapper [Rank4 [[[[0]]]]] ''eval'' Map.empty
     = Inl (Exception ''No such mode: eval'')"
    using forward_unknown_mode_raises [of "''eval''" example_wrapper "[Rank4 [[[[0]]]]]" Map.empty]
    by simp
  have b: "LVViTWrapper_forward example_wrapper [Rank4 [[[[0]]]]] ''extract'' Map.empty
     \<noteq> Inl (Exception ''No such mode: extract'')"
    using forward_unknown_mode_raises [of "''extract''" example_wrapper "[Rank4 [[[[0]]]]]" Map.empty]
    by simp
  from a b show ?thesis by blast
qed


section \<open>Training step of the wrapper\<close>

text \<open>
  C10, as stated, promises that a call of \<open>train_iter\<close> without the keyword option
  \<open>mixup_fn\<close> succeeds. The source reads \<^verbatim>\<open>kwargs['mixup_fn']\<close>, which raises
  \<^verbatim>\<open>KeyError\<close> when the option is absent.
\<close>

theorem train_iter_missing_mixup_fn_counterexample:
  "train_iter example_wrapper [Rank4 [[[[0]]]], Rank2 [[1, 0, 0, 0, 0]]] Map.empty
     = Inl (KeyError ''mixup_fn'')"
  by (simp add: train_iter_def)

text \<open>
  C10, amended. In train mode with inputs \<open>(image, label)\<close>: when the option \<open>mixup_fn\<close> is
  supplied with a function, the function is applied to \<open>(image, label)\<close> and its results go
  to the backbone and to the loss module; when it is supplied as null, the image and the
  label go there unchanged; in both cases the call returns what the loss module returns.
  When the option is not supplied the call raises \<^verbatim>\<open>KeyError\<close>.
\<close>

theorem train_iter_applies_supplied_mixup_fn:
  "(kwargs ''mixup_fn'' = Some (Some f) \<longrightarrow>
      train_iter self [img, label] kwargs
        = run_loss self (fst (f (img, label))) (snd (f (img, label))))
   \<and> (kwargs ''mixup_fn'' = Some None \<longrightarrow>
      train_iter self [img, label] kwargs = run_loss self img label)
   \<and> (kwargs ''mixup_fn'' = None \<longrightarrow>
      train_iter self [img, label] kwargs = Inl (KeyError ''mixup_fn''))"
  by (simp add: train_iter_def run_loss_def split: prod.splits)

theorem train_iter_applies_supplied_mixup_fn_witness:
  "train_iter example_wrapper [Rank4 [[[[0]]]], Rank2 [[1, 0, 0, 0, 0]]] [''mixup_fn'' \<mapsto> None]
     = Inr (Losses [''loss'' \<mapsto> 2 * ln 5, ''acc1'' \<mapsto> 100, ''acc5'' \<mapsto> 100])
   \<and> train_iter example_wrapper [Rank4 [[[[0]]]], Rank2 [[1, 0, 0, 0, 0]]]
        [''mixup_fn'' \<mapsto> Some swap_labels]
     = Inr (Losses [''loss'' \<mapsto> 2 * ln 5, ''acc1'' \<mapsto> 0, ''acc5'' \<mapsto> 100])"
proof -
  have a: "train_iter example_wrapper [Rank4 [[[[0]]]], Rank2 [[1, 0, 0, 0, 0]]]
        [''mixup_fn'' \<mapsto> None]
      = run_loss example_wrapper (Rank4 [[[[0]]]]) (Rank2 [[1, 0, 0, 0, 0]])"
    using train_iter_applies_supplied_mixup_fn
      [of "[''mixup_fn'' \<mapsto> None]" undefined example_wrapper "Rank4 [[[[0]]]]"
          "Rank2 [[1, 0, 0, 0, 0]]"]
    by simp
  have b: "train_iter example_wrapper [Rank4 [[[[0]]]], Rank2 [[1, 0, 0, 0, 0]]]
        [''mixup_fn'' \<mapsto> Some swap_labels]
      = run_loss example_wrapper (Rank4 [[[[0]]]]) (Rank2 [[0, 1, 0, 0, 0]])"
    using train_iter_applies_supplied_mixup_fn
      [of "[''mixup_fn'' \<mapsto> Some swap_labels]" swap_labels example_wrapper "Rank4 [[[[0]]]]"
          "Rank2 [[1, 0, 0, 0, 0]]"]
    by (simp add: swap_labels_def)
  have c: "run_loss example_wrapper (Rank4 [[[[0]]]]) (Rank2 [[1, 0, 0, 0, 0]])
      = Inr (Losses [''loss'' \<mapsto> 2 * ln 5, ''acc1'' \<mapsto> 100, ''acc5'' \<mapsto> 100])"
    by (simp add: run_loss_def example_wrapper_def LVViTLoss_forward_def shape3_def
        split_target_def repeat_def reshape_def region_mix_def reshape_infer_def rows_of_def
        SoftTargetCrossEntropy_forward_def broadcast_mat_def broadcast_vec_def
        log_softmax_def mean_def accuracy_def topk_indices_def ranking_def expand_row_def upt_rec)
  have d: "run_loss example_wrapper (Rank4 [[[[0]]]]) (Rank2 [[0, 1, 0, 0, 0]])
      = Inr (Losses [''loss'' \<mapsto> 2 * ln 5, ''acc1'' \<mapsto> 0, ''acc5'' \<mapsto> 100])"
    by (simp add: run_loss_def example_wrapper_def LVViTLoss_forward_def shape3_def
        split_target_def repeat_def reshape_def region_mix_def reshape_infer_def rows_of_def
        SoftTargetCrossEntropy_forward_def broadcast_mat_def broadcast_vec_def
        log_softmax_def mean_def accuracy_def topk_indices_def ranking_def expand_row_def upt_rec)
  from a b c d show ?thesis by simp
qed

section \<open>Decomposition of the target\<close>

text \<open>
  C5. For a rank-2 target of shape \<open>[B, C]\<close>, with or without the correction by the ground
  truth, the classification target is the target itself, and the auxiliary target has
  shape \<open>[B * N, C]\<close> and repeats the label of each sample over its \<open>N\<close> tokens: row
  \<open>b * N + n\<close> is row \<open>b\<close> of the target.
\<close>

theorem split_target_rank2_replicates_label:
  assumes "is_mat B C target"
  shows "split_target self B N C (Rank2 target) = Inr (target, concat (map (replicate N) target))
       \<and> is_mat (B * N) C (concat (map (replicate N) target))
       \<and> (\<forall>b<B. \<forall>n<N. concat (map (replicate N) target) ! (b * N + n) = target ! b)"
proof (intro conjI allI impI)
  show "split_target self B N C (Rank2 target) = Inr (target, concat (map (replicate N) target))"
    using assms by (rule split_target_rank2)
  show "is_mat (B * N) C (concat (map (replicate N) target))"
    using assms by (intro is_mat_concat_blocks) (auto simp: is_mat_def list_all_iff)
  fix b n assume "b < B" "n < N"
  then show "concat (map (replicate N) target) ! (b * N + n) = target ! b"
    using assms nth_concat_uniform[of N "map (replicate N) target" b n]
    by (simp add: is_mat_def list_all_iff)
qed

theorem split_target_rank2_replicates_label_witness:
  "is_mat 2 3 [[1, 2, 3], [4, 5, 6 :: real]]
   \<and> split_target \<lparr>dense_weight = 1, cls_weight = 1, ground_truth = False\<rparr> 2 2 3
        (Rank2 [[1, 2, 3], [4, 5, 6]])
      = Inr ([[1, 2, 3], [4, 5, 6]], [[1, 2, 3], [1, 2, 3], [4, 5, 6], [4, 5, 6]])"
proof -
  have m: "is_mat 2 3 [[1, 2, 3], [4, 5, 6 :: real]]"
    by (simp add: is_mat_def)
  from split_target_rank2_replicates_label [OF m, of "\<lparr>dense_weight = 1, cls_weight = 1, ground_truth = False\<rparr>" 2]
  have "split_target \<lparr>dense_weight = 1, cls_weight = 1, ground_truth = False\<rparr> 2 2 3
        (Rank2 [[1, 2, 3], [4, 5, 6]])
      = Inr ([[1, 2, 3], [4, 5, 6]], concat (map (replicate 2) [[1, 2, 3], [4, 5, 6]]))"
    by blast
  then show ?thesis using m by (simp add: numeral_2_eq_2)
qed



section \<open>Properties of the accuracy metric\<close>




section \<open>The rank-3 target\<close>






section \<open>The composite loss\<close>





end
